theory Spec2Isabelle
  imports Main "HOL-Library.Word"
begin

section \<open>The native engine, as the wrapper sees it\<close>

text \<open>
  The wrapper in \<^verbatim>\<open>src/headers/cppsqlite.h\<close> is written against \<^verbatim>\<open>sqlite3.h\<close>, which is
  not part of the sources. The engine is therefore a parameter of every operation: a record
  of the native functions the wrapper calls, each a state transformer over an arbitrary
  engine state \<open>'e\<close>. Nothing is assumed about what the engine answers.

  C's \<^verbatim>\<open>int\<close> is a 32-bit word, \<^verbatim>\<open>long long int\<close> a 64-bit word. A native pointer is
  \<open>None\<close> for \<^verbatim>\<open>nullptr\<close> and \<open>Some a\<close> for the address \<open>a\<close>.
\<close>

type_synonym cint = "32 word"
type_synonym clonglong = "64 word"
type_synonym sqlite3_ptr = "nat option"
type_synonym sqlite3_stmt_ptr = "nat option"

text \<open>
  A \<^verbatim>\<open>const char*\<close> that the wrapper turns into a \<^verbatim>\<open>std::string\<close> is the string it points
  to, or \<open>None\<close> for a null pointer. The blob pointer is read with an explicit length, so
  it is the memory behind it: the byte at each offset.
\<close>

type_synonym cstring_ptr = "string option"
type_synonym blob_ptr = "(nat \<Rightarrow> char) option"

record 'e engine =
  sqlite3_open :: "string \<Rightarrow> 'e \<Rightarrow> (cint \<times> sqlite3_ptr) \<times> 'e"
  sqlite3_close :: "sqlite3_ptr \<Rightarrow> 'e \<Rightarrow> cint \<times> 'e"
  sqlite3_errmsg :: "sqlite3_ptr \<Rightarrow> 'e \<Rightarrow> string \<times> 'e"
  sqlite3_exec :: "sqlite3_ptr \<Rightarrow> string \<Rightarrow> 'e \<Rightarrow> cint \<times> 'e"
  sqlite3_last_insert_rowid :: "sqlite3_ptr \<Rightarrow> 'e \<Rightarrow> clonglong \<times> 'e"
  sqlite3_prepare_v2 :: "sqlite3_ptr \<Rightarrow> string \<Rightarrow> cint \<Rightarrow> 'e \<Rightarrow> (cint \<times> sqlite3_stmt_ptr) \<times> 'e"
  sqlite3_finalize :: "sqlite3_stmt_ptr \<Rightarrow> 'e \<Rightarrow> cint \<times> 'e"
  sqlite3_bind_int :: "sqlite3_stmt_ptr \<Rightarrow> cint \<Rightarrow> cint \<Rightarrow> 'e \<Rightarrow> cint \<times> 'e"
  sqlite3_bind_int64 :: "sqlite3_stmt_ptr \<Rightarrow> cint \<Rightarrow> clonglong \<Rightarrow> 'e \<Rightarrow> cint \<times> 'e"
  sqlite3_bind_text :: "sqlite3_stmt_ptr \<Rightarrow> cint \<Rightarrow> string \<Rightarrow> cint \<Rightarrow> 'e \<Rightarrow> cint \<times> 'e"
  sqlite3_step :: "sqlite3_stmt_ptr \<Rightarrow> 'e \<Rightarrow> cint \<times> 'e"
  sqlite3_reset :: "sqlite3_stmt_ptr \<Rightarrow> 'e \<Rightarrow> cint \<times> 'e"
  sqlite3_db_handle :: "sqlite3_stmt_ptr \<Rightarrow> 'e \<Rightarrow> sqlite3_ptr \<times> 'e"
  sqlite3_column_int :: "sqlite3_stmt_ptr \<Rightarrow> cint \<Rightarrow> 'e \<Rightarrow> cint \<times> 'e"
  sqlite3_column_int64 :: "sqlite3_stmt_ptr \<Rightarrow> cint \<Rightarrow> 'e \<Rightarrow> clonglong \<times> 'e"
  sqlite3_column_text :: "sqlite3_stmt_ptr \<Rightarrow> cint \<Rightarrow> 'e \<Rightarrow> cstring_ptr \<times> 'e"
  sqlite3_column_bytes :: "sqlite3_stmt_ptr \<Rightarrow> cint \<Rightarrow> 'e \<Rightarrow> cint \<times> 'e"
  sqlite3_column_blob :: "sqlite3_stmt_ptr \<Rightarrow> cint \<Rightarrow> 'e \<Rightarrow> blob_ptr \<times> 'e"

text \<open>
  Modelled from the spec: \<^verbatim>\<open>sqlite3.h\<close> is missing from the sources; the spec names the
  three native results the wrapper tests for (success, row-available, no-more-rows) as
  different results. Their values here are the ones of the engine's public header.
\<close>

definition SQLITE_OK :: cint where
  "SQLITE_OK = 0"

definition SQLITE_ROW :: cint where
  "SQLITE_ROW = 100"

definition SQLITE_DONE :: cint where
  "SQLITE_DONE = 101"

text \<open>
  Every native call the wrapper makes is recorded, with its arguments, in the order of the
  calls. The world is the engine's state together with this record.
\<close>

datatype native_call =
    Call_open string
  | Call_close sqlite3_ptr
  | Call_errmsg sqlite3_ptr
  | Call_exec sqlite3_ptr string
  | Call_last_insert_rowid sqlite3_ptr
  | Call_prepare_v2 sqlite3_ptr string cint
  | Call_finalize sqlite3_stmt_ptr
  | Call_bind_int sqlite3_stmt_ptr cint cint
  | Call_bind_int64 sqlite3_stmt_ptr cint clonglong
  | Call_bind_text sqlite3_stmt_ptr cint string cint
  | Call_step sqlite3_stmt_ptr
  | Call_reset sqlite3_stmt_ptr
  | Call_db_handle sqlite3_stmt_ptr
  | Call_column_int sqlite3_stmt_ptr cint
  | Call_column_int64 sqlite3_stmt_ptr cint
  | Call_column_text sqlite3_stmt_ptr cint
  | Call_column_bytes sqlite3_stmt_ptr cint
  | Call_column_blob sqlite3_stmt_ptr cint

type_synonym 'e world = "'e \<times> native_call list"

definition native :: "native_call \<Rightarrow> ('e \<Rightarrow> 'a \<times> 'e) \<Rightarrow> 'e world \<Rightarrow> 'a \<times> 'e world" where
  "native c f w = (case f (fst w) of (r, e') \<Rightarrow> (r, (e', snd w @ [c])))"

definition close_db :: "'e engine \<Rightarrow> sqlite3_ptr \<Rightarrow> 'e world \<Rightarrow> cint \<times> 'e world" where
  "close_db E p = native (Call_close p) (sqlite3_close E p)"

definition finalize_stmt :: "'e engine \<Rightarrow> sqlite3_stmt_ptr \<Rightarrow> 'e world \<Rightarrow> cint \<times> 'e world" where
  "finalize_stmt E p = native (Call_finalize p) (sqlite3_finalize E p)"

section \<open>Errors\<close>

text \<open>
  \<^verbatim>\<open>struct SqlException { int errorCode; std::string errorMessage; }\<close>. Besides a thrown
  \<open>SqlException\<close>, an operation can end in a failed \<^verbatim>\<open>assert\<close> (the build keeps
  assertions: \<^verbatim>\<open>NDEBUG\<close> is not defined anywhere in the sources), and the
  \<^verbatim>\<open>std::string(data, n)\<close> constructor throws \<^verbatim>\<open>std::length_error\<close> when \<open>n\<close>, an
  \<^verbatim>\<open>int\<close> converted to \<^verbatim>\<open>size_t\<close>, is negative.
\<close>

record SqlException =
  errorCode :: cint
  errorMessage :: string

datatype error = Throw SqlException | Assertion_failed | Length_error

section \<open>The owning pointer\<close>

text \<open>
  \<^verbatim>\<open>std::unique_ptr<T, int(*)(T*)>\<close> holds one raw pointer. Its destructor calls the
  deleter when the pointer is not null, and does nothing otherwise. Move assignment takes
  the pointer of the right-hand side, leaves the right-hand side null, and calls the
  deleter on the pointer held before, when that was not null.
\<close>

definition unique_ptr_dtor ::
  "(nat option \<Rightarrow> 'e world \<Rightarrow> cint \<times> 'e world) \<Rightarrow> nat option \<Rightarrow> 'e world \<Rightarrow> 'e world" where
  "unique_ptr_dtor deleter p w =
     (case p of None \<Rightarrow> w | Some a \<Rightarrow> snd (deleter (Some a) w))"

definition unique_ptr_move_assign ::
  "(nat option \<Rightarrow> 'e world \<Rightarrow> cint \<times> 'e world) \<Rightarrow> nat option \<Rightarrow> nat option \<Rightarrow> 'e world
     \<Rightarrow> (nat option \<times> nat option) \<times> 'e world" where
  "unique_ptr_move_assign deleter lhs rhs w =
     (let old_p = lhs;
          lhs' = rhs;
          rhs' = None
      in ((lhs', rhs'), unique_ptr_dtor deleter old_p w))"

section \<open>Strings handed to the engine\<close>

text \<open>
  \<^verbatim>\<open>std::string::c_str()\<close> hands the engine a pointer that the engine reads as a C
  string: the text before the first NUL byte. Where the code passes the pointer together
  with \<^verbatim>\<open>size()\<close> (\<^verbatim>\<open>sqlite3_prepare_v2\<close>, \<^verbatim>\<open>sqlite3_bind_text\<close>), the engine is handed
  the whole buffer and the length.
\<close>

definition c_str :: "string \<Rightarrow> string" where
  "c_str s = takeWhile (\<lambda>c. c \<noteq> CHR 0x00) s"

section \<open>Connection\<close>

record Connection =
  m_db :: sqlite3_ptr

definition Connection_ctor :: Connection where
  "Connection_ctor = \<lparr>m_db = None\<rparr>"

definition Connection_dtor :: "'e engine \<Rightarrow> Connection \<Rightarrow> 'e world \<Rightarrow> 'e world" where
  "Connection_dtor E this w = unique_ptr_dtor (close_db E) (m_db this) w"

text \<open>
  \<^verbatim>\<open>Connection::open\<close>. The local owner \<open>localHandle\<close> is destroyed when the scope is
  left: by the \<^verbatim>\<open>throw\<close>, after the exception has been built from the diagnostic
  message, or at the end of the function, after it has been moved from.
\<close>

definition Connection_open ::
  "'e engine \<Rightarrow> string \<Rightarrow> Connection \<Rightarrow> 'e world \<Rightarrow> (error + unit) \<times> Connection \<times> 'e world" where
  "Connection_open E fileName this w =
     (case native (Call_open (c_str fileName)) (sqlite3_open E (c_str fileName)) w of
        ((result, rawConnection), w1) \<Rightarrow>
          (let localHandle = rawConnection in
           if result \<noteq> SQLITE_OK then
             (case native (Call_errmsg localHandle) (sqlite3_errmsg E localHandle) w1 of
                (msg, w2) \<Rightarrow>
                  (Inl (Throw \<lparr>errorCode = result, errorMessage = msg\<rparr>), this,
                   unique_ptr_dtor (close_db E) localHandle w2))
           else
             (case unique_ptr_move_assign (close_db E) (m_db this) localHandle w1 of
                ((m_db', localHandle'), w2) \<Rightarrow>
                  (Inr (), this\<lparr>m_db := m_db'\<rparr>,
                   unique_ptr_dtor (close_db E) localHandle' w2))))"

definition createInMemory ::
  "'e engine \<Rightarrow> Connection \<Rightarrow> 'e world \<Rightarrow> (error + unit) \<times> Connection \<times> 'e world" where
  "createInMemory E this w = Connection_open E '':memory:'' this w"

definition execute ::
  "'e engine \<Rightarrow> string \<Rightarrow> Connection \<Rightarrow> 'e world \<Rightarrow> (error + unit) \<times> Connection \<times> 'e world" where
  "execute E statement this w =
     (if m_db this = None then (Inl Assertion_failed, this, w)
      else
        (case native (Call_exec (m_db this) (c_str statement))
                (sqlite3_exec E (m_db this) (c_str statement)) w of
           (result, w1) \<Rightarrow>
             if result \<noteq> SQLITE_OK then
               (case native (Call_errmsg (m_db this)) (sqlite3_errmsg E (m_db this)) w1 of
                  (msg, w2) \<Rightarrow>
                    (Inl (Throw \<lparr>errorCode = result, errorMessage = msg\<rparr>), this, w2))
             else (Inr (), this, w1)))"

definition ptr :: "Connection \<Rightarrow> sqlite3_ptr" where
  "ptr this = m_db this"

definition lastRowId ::
  "'e engine \<Rightarrow> Connection \<Rightarrow> 'e world \<Rightarrow> (error + clonglong) \<times> Connection \<times> 'e world" where
  "lastRowId E this w =
     (case native (Call_last_insert_rowid (m_db this)) (sqlite3_last_insert_rowid E (m_db this)) w of
        (r, w1) \<Rightarrow> (Inr r, this, w1))"

definition beginTransaction ::
  "'e engine \<Rightarrow> Connection \<Rightarrow> 'e world \<Rightarrow> (error + unit) \<times> Connection \<times> 'e world" where
  "beginTransaction E this w = execute E ''BEGIN'' this w"

definition rollbackTransaction ::
  "'e engine \<Rightarrow> Connection \<Rightarrow> 'e world \<Rightarrow> (error + unit) \<times> Connection \<times> 'e world" where
  "rollbackTransaction E this w = execute E ''ROLLBACK'' this w"

definition commitTransaction ::
  "'e engine \<Rightarrow> Connection \<Rightarrow> 'e world \<Rightarrow> (error + unit) \<times> Connection \<times> 'e world" where
  "commitTransaction E this w = execute E ''COMMIT'' this w"

section \<open>Statement\<close>

record Statement =
  m_stmt :: sqlite3_stmt_ptr

definition Statement_ctor :: Statement where
  "Statement_ctor = \<lparr>m_stmt = None\<rparr>"

definition Statement_dtor :: "'e engine \<Rightarrow> Statement \<Rightarrow> 'e world \<Rightarrow> 'e world" where
  "Statement_dtor E this w = unique_ptr_dtor (finalize_stmt E) (m_stmt this) w"

text \<open>
  \<^verbatim>\<open>Statement::prepare\<close>. The connection is passed by const reference and only read
  through \<^verbatim>\<open>ptr()\<close>. \<^verbatim>\<open>statement.size()\<close> is converted to the \<^verbatim>\<open>int\<close> the engine takes.
\<close>

definition prepare ::
  "'e engine \<Rightarrow> Connection \<Rightarrow> string \<Rightarrow> Statement \<Rightarrow> 'e world
     \<Rightarrow> (error + unit) \<times> Statement \<times> 'e world" where
  "prepare E connection statement this w =
     (case native (Call_prepare_v2 (ptr connection) statement (of_nat (length statement)))
             (sqlite3_prepare_v2 E (ptr connection) statement (of_nat (length statement))) w of
        ((result, rawStmt), w1) \<Rightarrow>
          (let localHandle = rawStmt in
           if result \<noteq> SQLITE_OK then
             (case native (Call_errmsg (ptr connection)) (sqlite3_errmsg E (ptr connection)) w1 of
                (msg, w2) \<Rightarrow>
                  (Inl (Throw \<lparr>errorCode = result, errorMessage = msg\<rparr>), this,
                   unique_ptr_dtor (finalize_stmt E) localHandle w2))
           else
             (case unique_ptr_move_assign (finalize_stmt E) (m_stmt this) localHandle w1 of
                ((m_stmt', localHandle'), w2) \<Rightarrow>
                  (Inr (), this\<lparr>m_stmt := m_stmt'\<rparr>,
                   unique_ptr_dtor (finalize_stmt E) localHandle' w2))))"

text \<open>
  The tail shared by \<^verbatim>\<open>bind\<close>, \<^verbatim>\<open>step\<close> and \<^verbatim>\<open>reset\<close>:
  \<^verbatim>\<open>throw SqlException(result, sqlite3_errmsg(sqlite3_db_handle(m_stmt.get())))\<close>.
\<close>

definition throw_stmt_error ::
  "'e engine \<Rightarrow> cint \<Rightarrow> Statement \<Rightarrow> 'e world \<Rightarrow> (error + 'a) \<times> Statement \<times> 'e world" where
  "throw_stmt_error E result this w =
     (case native (Call_db_handle (m_stmt this)) (sqlite3_db_handle E (m_stmt this)) w of
        (db, w1) \<Rightarrow>
          (case native (Call_errmsg db) (sqlite3_errmsg E db) w1 of
             (msg, w2) \<Rightarrow> (Inl (Throw \<lparr>errorCode = result, errorMessage = msg\<rparr>), this, w2)))"

text \<open>
  The three overloads of \<^verbatim>\<open>Statement::bind\<close> in \<^verbatim>\<open>src/headers/cppsqlite.h\<close>. Each
  increments its \<^verbatim>\<open>int index\<close> before the native call; on a 32-bit word the increment
  wraps at \<^verbatim>\<open>INT_MAX\<close>, where C++ leaves it undefined.
\<close>

definition bind_int ::
  "'e engine \<Rightarrow> cint \<Rightarrow> cint \<Rightarrow> Statement \<Rightarrow> 'e world \<Rightarrow> (error + unit) \<times> Statement \<times> 'e world" where
  "bind_int E index val this w =
     (if m_stmt this = None then (Inl Assertion_failed, this, w)
      else
        (let index = index + 1 in
         case native (Call_bind_int (m_stmt this) index val)
                (sqlite3_bind_int E (m_stmt this) index val) w of
           (result, w1) \<Rightarrow>
             if result \<noteq> SQLITE_OK then throw_stmt_error E result this w1
             else (Inr (), this, w1)))"

definition bind_int64 ::
  "'e engine \<Rightarrow> cint \<Rightarrow> clonglong \<Rightarrow> Statement \<Rightarrow> 'e world
     \<Rightarrow> (error + unit) \<times> Statement \<times> 'e world" where
  "bind_int64 E index val this w =
     (if m_stmt this = None then (Inl Assertion_failed, this, w)
      else
        (let index = index + 1 in
         case native (Call_bind_int64 (m_stmt this) index val)
                (sqlite3_bind_int64 E (m_stmt this) index val) w of
           (result, w1) \<Rightarrow>
             if result \<noteq> SQLITE_OK then throw_stmt_error E result this w1
             else (Inr (), this, w1)))"

definition bind_text ::
  "'e engine \<Rightarrow> cint \<Rightarrow> string \<Rightarrow> Statement \<Rightarrow> 'e world
     \<Rightarrow> (error + unit) \<times> Statement \<times> 'e world" where
  "bind_text E index val this w =
     (if m_stmt this = None then (Inl Assertion_failed, this, w)
      else
        (let index = index + 1 in
         case native (Call_bind_text (m_stmt this) index val (of_nat (length val)))
                (sqlite3_bind_text E (m_stmt this) index val (of_nat (length val))) w of
           (result, w1) \<Rightarrow>
             if result \<noteq> SQLITE_OK then throw_stmt_error E result this w1
             else (Inr (), this, w1)))"



definition step ::
  "'e engine \<Rightarrow> Statement \<Rightarrow> 'e world \<Rightarrow> (error + bool) \<times> Statement \<times> 'e world" where
  "step E this w =
     (if m_stmt this = None then (Inl Assertion_failed, this, w)
      else
        (case native (Call_step (m_stmt this)) (sqlite3_step E (m_stmt this)) w of
           (result, w1) \<Rightarrow>
             if result = SQLITE_ROW then (Inr True, this, w1)
             else if result = SQLITE_DONE then (Inr False, this, w1)
             else throw_stmt_error E result this w1))"

definition reset ::
  "'e engine \<Rightarrow> Statement \<Rightarrow> 'e world \<Rightarrow> (error + unit) \<times> Statement \<times> 'e world" where
  "reset E this w =
     (case native (Call_reset (m_stmt this)) (sqlite3_reset E (m_stmt this)) w of
        (result, w1) \<Rightarrow>
          if result \<noteq> SQLITE_OK then throw_stmt_error E result this w1
          else (Inr (), this, w1))"

definition getInt ::
  "'e engine \<Rightarrow> cint \<Rightarrow> Statement \<Rightarrow> 'e world \<Rightarrow> (error + cint) \<times> Statement \<times> 'e world" where
  "getInt E column this w =
     (case native (Call_column_int (m_stmt this) column)
             (sqlite3_column_int E (m_stmt this) column) w of
        (r, w1) \<Rightarrow> (Inr r, this, w1))"

definition getInt64 ::
  "'e engine \<Rightarrow> cint \<Rightarrow> Statement \<Rightarrow> 'e world \<Rightarrow> (error + clonglong) \<times> Statement \<times> 'e world" where
  "getInt64 E column this w =
     (case native (Call_column_int64 (m_stmt this) column)
             (sqlite3_column_int64 E (m_stmt this) column) w of
        (r, w1) \<Rightarrow> (Inr r, this, w1))"

definition getString ::
  "'e engine \<Rightarrow> cint \<Rightarrow> Statement \<Rightarrow> 'e world \<Rightarrow> (error + string) \<times> Statement \<times> 'e world" where
  "getString E column this w =
     (case native (Call_column_text (m_stmt this) column)
             (sqlite3_column_text E (m_stmt this) column) w of
        (str, w1) \<Rightarrow>
          (Inr (case str of Some s \<Rightarrow> s | None \<Rightarrow> []), this, w1))"

text \<open>
  \<^verbatim>\<open>std::string(data, dataSize)\<close> copies \<open>dataSize\<close> bytes starting at \<open>data\<close>.
\<close>

definition getBlob ::
  "'e engine \<Rightarrow> cint \<Rightarrow> Statement \<Rightarrow> 'e world \<Rightarrow> (error + string) \<times> Statement \<times> 'e world" where
  "getBlob E column this w =
     (case native (Call_column_bytes (m_stmt this) column)
             (sqlite3_column_bytes E (m_stmt this) column) w of
        (dataSize, w1) \<Rightarrow>
          (case native (Call_column_blob (m_stmt this) column)
                  (sqlite3_column_blob E (m_stmt this) column) w1 of
             (data, w2) \<Rightarrow>
               (case data of
                  Some mem \<Rightarrow>
                    if sint dataSize < 0 then (Inl Length_error, this, w2)
                    else (Inr (map mem [0..<nat (sint dataSize)]), this, w2)
                | None \<Rightarrow> (Inr [], this, w2))))"

section \<open>Observing an operation\<close>

text \<open>
  An operation returns its outcome, the object after it, and the world after it. The native
  calls it made are the ones its world has beyond the world it started from.
\<close>

definition outcome :: "'r \<times> 'o \<times> 'e world \<Rightarrow> 'r" where
  "outcome r = fst r"

definition object_after :: "'r \<times> 'o \<times> 'e world \<Rightarrow> 'o" where
  "object_after r = fst (snd r)"

definition world_after :: "'r \<times> 'o \<times> 'e world \<Rightarrow> 'e world" where
  "world_after r = snd (snd r)"

definition calls_made :: "'e world \<Rightarrow> 'r \<times> 'o \<times> 'e world \<Rightarrow> native_call list" where
  "calls_made w r = drop (length (snd w)) (snd (world_after r))"


fun is_release :: "native_call \<Rightarrow> bool" where
  "is_release (Call_close p) = True"
| "is_release (Call_finalize p) = True"
| "is_release c = False"

section \<open>A small engine to run the wrapper on\<close>

text \<open>
  A stand-in engine for concrete runs. Its state is the next fresh address and the list of
  results that the coming \<open>step\<close> calls will report. It opens only the in-memory
  database, compiles only \<^verbatim>\<open>SELECT ?\<close> (and leaves a handle behind for the truncated
  \<^verbatim>\<open>SELECT\<close>), has one parameter and one column, and answers a null statement or
  session the way the real engine documents it.
\<close>

type_synonym toy_state = "nat \<times> cint list"

definition toy_engine :: "toy_state engine" where
  "toy_engine = \<lparr>
     sqlite3_open = (\<lambda>f (n, rs).
        ((if f = '':memory:'' then 0 else 14, Some n), (Suc n, rs))),
     sqlite3_close = (\<lambda>p s. (0, s)),
     sqlite3_errmsg = (\<lambda>p s. (case p of None \<Rightarrow> ''out of memory'' | Some a \<Rightarrow> ''toy error'', s)),
     sqlite3_exec = (\<lambda>p sql s. (if sql = [] then 0 else if p = None then 21 else 0, s)),
     sqlite3_last_insert_rowid = (\<lambda>p s. (case p of None \<Rightarrow> 0 | Some a \<Rightarrow> 1, s)),
     sqlite3_prepare_v2 = (\<lambda>p sql nByte (n, rs).
        if sql = ''SELECT ?'' then ((0, Some n), (Suc n, rs))
        else if sql = ''SELECT'' then ((1, Some n), (Suc n, rs))
        else ((1, None), (n, rs))),
     sqlite3_finalize = (\<lambda>p s. (0, s)),
     sqlite3_bind_int = (\<lambda>p i v s. (if i = 1 then 0 else 25, s)),
     sqlite3_bind_int64 = (\<lambda>p i v s. (if i = 1 then 0 else 25, s)),
     sqlite3_bind_text = (\<lambda>p i v n s. (if i = 1 then 0 else 25, s)),
     sqlite3_step = (\<lambda>p (n, rs). (case rs of [] \<Rightarrow> (101, (n, rs)) | r # rs' \<Rightarrow> (r, (n, rs')))),
     sqlite3_reset = (\<lambda>p s. (0, s)),
     sqlite3_db_handle = (\<lambda>p s. (case p of None \<Rightarrow> None | Some a \<Rightarrow> Some 0, s)),
     sqlite3_column_int = (\<lambda>p c s. (if c = 0 then 42 else 0, s)),
     sqlite3_column_int64 = (\<lambda>p c s. (if c = 0 then 42 else 0, s)),
     sqlite3_column_text = (\<lambda>p c s. (if c = 0 then Some ''alice'' else None, s)),
     sqlite3_column_bytes = (\<lambda>p c s. (if c = 0 then 5 else 0, s)),
     sqlite3_column_blob = (\<lambda>p c s.
        (if c = 0 then Some (\<lambda>i. if i < 5 then ''alice'' ! i else CHR 0x00) else None, s))
   \<rparr>"

definition toy_world :: "toy_state world" where
  "toy_world = ((0, []), [])"

section \<open>Properties\<close>

lemmas op_defs = outcome_def object_after_def world_after_def calls_made_def native_def
  unique_ptr_dtor_def unique_ptr_move_assign_def close_db_def finalize_stmt_def
  throw_stmt_error_def

lemmas toy_defs = toy_engine_def toy_world_def SQLITE_OK_def SQLITE_ROW_def SQLITE_DONE_def

subsection \<open>Binding\<close>





subsection \<open>Stepping\<close>

text \<open>
  C2. On a prepared statement, \<open>step\<close> returns true exactly when the native step reports
  \<open>SQLITE_ROW\<close>, returns false exactly when it reports \<open>SQLITE_DONE\<close>, and for every
  other native result throws an \<open>SqlException\<close> that carries this result and the
  diagnostic message of the statement's session, read after the failed step; in that case it
  does not return a value.
\<close>

theorem step_result:
  assumes "m_stmt this = Some p"
    and "sqlite3_step E (Some p) (fst w) = (result, e1)"
    and "sqlite3_db_handle E (Some p) e1 = (db, e2)"
    and "sqlite3_errmsg E db e2 = (msg, e3)"
  shows "(outcome (step E this w) = Inr True \<longleftrightarrow> result = SQLITE_ROW)
       \<and> (outcome (step E this w) = Inr False \<longleftrightarrow> result = SQLITE_DONE)
       \<and> (result \<noteq> SQLITE_ROW \<and> result \<noteq> SQLITE_DONE \<longrightarrow>
            outcome (step E this w) = Inl (Throw \<lparr>errorCode = result, errorMessage = msg\<rparr>))"
  using assms
  by (simp add: step_def op_defs SQLITE_ROW_def SQLITE_DONE_def split: prod.splits)

theorem step_result_witness:
  "outcome (step toy_engine \<lparr>m_stmt = Some 1\<rparr> ((2, [100, 101, 5]), [])) = Inr True
   \<and> outcome (step toy_engine \<lparr>m_stmt = Some 1\<rparr> ((2, [101, 5]), [])) = Inr False
   \<and> outcome (step toy_engine \<lparr>m_stmt = Some 1\<rparr> ((2, [5]), []))
        = Inl (Throw \<lparr>errorCode = 5, errorMessage = ''toy error''\<rparr>)"
  using
    step_result [of "\<lparr>m_stmt = Some 1\<rparr>" 1 toy_engine "((2, [100, 101, 5]), [])" 100
      "(2, [101, 5])" "Some 0" "(2, [101, 5])" "''toy error''" "(2, [101, 5])"]
    step_result [of "\<lparr>m_stmt = Some 1\<rparr>" 1 toy_engine "((2, [101, 5]), [])" 101
      "(2, [5])" "Some 0" "(2, [5])" "''toy error''" "(2, [5])"]
    step_result [of "\<lparr>m_stmt = Some 1\<rparr>" 1 toy_engine "((2, [5]), [])" 5
      "(2, [])" "Some 0" "(2, [])" "''toy error''" "(2, [])"]
  by (simp add: toy_defs)

subsection \<open>Opening a connection\<close>

text \<open>
  C3, as amended. When the native open reports a failure, \<open>open\<close> throws an
  \<open>SqlException\<close> with the native result and the message read from the handle that the
  failed open produced, closes that handle if there is one and makes no other native call,
  and leaves the connection's own handle as it was: absent if it was absent, the handle
  held before otherwise. This holds whatever happens later. Any later open on the same
  instance for which the native open reports success returns normally, and the connection
  then owns the handle that open produced.
\<close>

theorem failed_open_keeps_handle:
  assumes "sqlite3_open E (c_str fileName) (fst w) = ((result, raw), e1)"
    and "result \<noteq> SQLITE_OK"
    and "sqlite3_errmsg E raw e1 = (msg, e2)"
    and "Connection_open E fileName this w = (r, this1, w1)"
  shows "r = Inl (Throw \<lparr>errorCode = result, errorMessage = msg\<rparr>)
       \<and> m_db this1 = m_db this
       \<and> (m_db this = None \<longrightarrow> m_db this1 = None)
       \<and> snd w1 = snd w @ [Call_open (c_str fileName), Call_errmsg raw]
                   @ (case raw of None \<Rightarrow> [] | Some h \<Rightarrow> [Call_close (Some h)])
       \<and> fst w1 = (case raw of None \<Rightarrow> e2 | Some h \<Rightarrow> snd (sqlite3_close E (Some h) e2))
       \<and> (\<forall>fileName2 p e3.
             sqlite3_open E (c_str fileName2) (fst w1) = ((SQLITE_OK, p), e3) \<longrightarrow>
               outcome (Connection_open E fileName2 this1 w1) = Inr ()
             \<and> m_db (object_after (Connection_open E fileName2 this1 w1)) = p)"
proof -
  have run: "Connection_open E fileName this w
      = (Inl (Throw \<lparr>errorCode = result, errorMessage = msg\<rparr>), this,
         (case raw of None \<Rightarrow> e2 | Some h \<Rightarrow> snd (sqlite3_close E (Some h) e2)),
         snd w @ [Call_open (c_str fileName), Call_errmsg raw]
           @ (case raw of None \<Rightarrow> [] | Some h \<Rightarrow> [Call_close (Some h)]))"
    using assms(1-3)
    by (simp add: Connection_open_def op_defs split: prod.splits option.splits)
  have later: "outcome (Connection_open E fileName2 c v) = Inr ()
      \<and> m_db (object_after (Connection_open E fileName2 c v)) = p"
    if "sqlite3_open E (c_str fileName2) (fst v) = ((SQLITE_OK, p), e3)"
    for fileName2 p e3 c v
    using that by (simp add: Connection_open_def op_defs split: prod.splits option.splits)
  from run assms(4) have eqs: "r = Inl (Throw \<lparr>errorCode = result, errorMessage = msg\<rparr>)"
    "this1 = this"
    "w1 = ((case raw of None \<Rightarrow> e2 | Some h \<Rightarrow> snd (sqlite3_close E (Some h) e2)),
         snd w @ [Call_open (c_str fileName), Call_errmsg raw]
           @ (case raw of None \<Rightarrow> [] | Some h \<Rightarrow> [Call_close (Some h)]))"
    by simp_all
  show ?thesis
    using eqs later by (simp del: append.simps append_Cons append_Nil)
qed

theorem failed_open_keeps_handle_witness:
  "Connection_open toy_engine ''/missing/t.db'' Connection_ctor toy_world
     = (Inl (Throw \<lparr>errorCode = 14, errorMessage = ''toy error''\<rparr>), \<lparr>m_db = None\<rparr>,
        ((1, []), [Call_open ''/missing/t.db'', Call_errmsg (Some 0), Call_close (Some 0)]))
   \<and> outcome (Connection_open toy_engine '':memory:'' \<lparr>m_db = None\<rparr>
        ((1, []), [Call_open ''/missing/t.db'', Call_errmsg (Some 0), Call_close (Some 0)]))
      = Inr ()
   \<and> m_db (object_after (Connection_open toy_engine '':memory:'' \<lparr>m_db = None\<rparr>
        ((1, []), [Call_open ''/missing/t.db'', Call_errmsg (Some 0), Call_close (Some 0)])))
      = Some 1
   \<and> Connection_open toy_engine ''/missing/t.db'' \<lparr>m_db = Some 0\<rparr>
        ((1, []), [Call_open '':memory:''])
     = (Inl (Throw \<lparr>errorCode = 14, errorMessage = ''toy error''\<rparr>), \<lparr>m_db = Some 0\<rparr>,
        ((2, []), [Call_open '':memory:'', Call_open ''/missing/t.db'', Call_errmsg (Some 1),
                   Call_close (Some 1)]))
   \<and> m_db (object_after (Connection_open toy_engine '':memory:'' \<lparr>m_db = Some 0\<rparr>
        ((2, []), [Call_open '':memory:'', Call_open ''/missing/t.db'', Call_errmsg (Some 1),
                   Call_close (Some 1)])))
      = Some 2"
proof -
  have run1: "Connection_open toy_engine ''/missing/t.db'' Connection_ctor toy_world
     = (Inl (Throw \<lparr>errorCode = 14, errorMessage = ''toy error''\<rparr>), \<lparr>m_db = None\<rparr>,
        ((1, []), [Call_open ''/missing/t.db'', Call_errmsg (Some 0), Call_close (Some 0)]))"
    by (simp add: Connection_open_def Connection_ctor_def c_str_def op_defs toy_defs)
  have run2: "Connection_open toy_engine ''/missing/t.db'' \<lparr>m_db = Some 0\<rparr>
        ((1, []), [Call_open '':memory:''])
     = (Inl (Throw \<lparr>errorCode = 14, errorMessage = ''toy error''\<rparr>), \<lparr>m_db = Some 0\<rparr>,
        ((2, []), [Call_open '':memory:'', Call_open ''/missing/t.db'', Call_errmsg (Some 1),
                   Call_close (Some 1)]))"
    by (simp add: Connection_open_def c_str_def op_defs toy_defs)
  have a1: "sqlite3_open toy_engine (c_str ''/missing/t.db'') (fst toy_world)
      = ((14, Some 0), (1, []))"
    by (simp add: c_str_def toy_defs)
  have a2: "sqlite3_open toy_engine (c_str ''/missing/t.db'')
      (fst (((1, []), [Call_open '':memory:'']) :: toy_state world)) = ((14, Some 1), (2, []))"
    by (simp add: c_str_def toy_defs)
  have ne: "(14 :: cint) \<noteq> SQLITE_OK"
    by (simp add: SQLITE_OK_def)
  have m1: "sqlite3_errmsg toy_engine (Some 0) (1, []) = (''toy error'', (1, []))"
    by (simp add: toy_defs)
  have m2: "sqlite3_errmsg toy_engine (Some 1) (2, []) = (''toy error'', (2, []))"
    by (simp add: toy_defs)
  have o1: "sqlite3_open toy_engine (c_str '':memory:'')
      (fst ((1, []), [Call_open ''/missing/t.db'', Call_errmsg (Some 0), Call_close (Some 0)]))
      = ((SQLITE_OK, Some 1), (2, []))"
    by (simp add: c_str_def toy_defs)
  have o2: "sqlite3_open toy_engine (c_str '':memory:'')
      (fst ((2, []), [Call_open '':memory:'', Call_open ''/missing/t.db'', Call_errmsg (Some 1),
                      Call_close (Some 1)]))
      = ((SQLITE_OK, Some 2), (3, []))"
    by (simp add: c_str_def toy_defs)
  from failed_open_keeps_handle [OF a1 ne m1 run1] o1
    failed_open_keeps_handle [OF a2 ne m2 run2] o2 run1 run2
  show ?thesis
    by blast
qed

text \<open>
  C3 does not hold of a connection that already holds a handle: after a successful
  open of the in-memory database, a failed open of another path throws and the connection
  still holds the first handle, which the failed call has not closed.
\<close>

theorem failed_open_on_open_connection_counterexample:
  "Connection_open toy_engine '':memory:'' Connection_ctor toy_world
     = (Inr (), \<lparr>m_db = Some 0\<rparr>, ((1, []), [Call_open '':memory:'']))
   \<and> outcome (Connection_open toy_engine ''/missing/t.db'' \<lparr>m_db = Some 0\<rparr>
        ((1, []), [Call_open '':memory:'']))
        = Inl (Throw \<lparr>errorCode = 14, errorMessage = ''toy error''\<rparr>)
   \<and> m_db (object_after (Connection_open toy_engine ''/missing/t.db'' \<lparr>m_db = Some 0\<rparr>
        ((1, []), [Call_open '':memory:'']))) = Some 0
   \<and> m_db (object_after (Connection_open toy_engine ''/missing/t.db'' \<lparr>m_db = Some 0\<rparr>
        ((1, []), [Call_open '':memory:'']))) \<noteq> None
   \<and> calls_made ((1, []), [Call_open '':memory:''])
        (Connection_open toy_engine ''/missing/t.db'' \<lparr>m_db = Some 0\<rparr>
           ((1, []), [Call_open '':memory:'']))
        = [Call_open ''/missing/t.db'', Call_errmsg (Some 1), Call_close (Some 1)]"
  by (simp add: Connection_open_def Connection_ctor_def c_str_def op_defs toy_defs)

text \<open>
  C7. When the native open reports a failure and has produced a handle, \<open>open\<close> makes
  exactly three native calls: the open, the read of the diagnostic message from that
  handle, and the close of that handle. The handle is closed exactly once, and the close
  is part of the failing call, so it has happened when the caller sees the exception: the
  engine the caller gets back is the one \<^verbatim>\<open>sqlite3_close\<close> has left, applied to that
  handle in the state after the message was read.
\<close>

theorem open_failure_releases_once:
  assumes "sqlite3_open E (c_str fileName) (fst w) = ((result, Some h), e1)"
    and "result \<noteq> SQLITE_OK"
  shows "calls_made w (Connection_open E fileName this w)
           = [Call_open (c_str fileName), Call_errmsg (Some h), Call_close (Some h)]
       \<and> count_list (calls_made w (Connection_open E fileName this w)) (Call_close (Some h)) = 1
       \<and> outcome (Connection_open E fileName this w)
           = Inl (Throw \<lparr>errorCode = result, errorMessage = fst (sqlite3_errmsg E (Some h) e1)\<rparr>)
       \<and> fst (world_after (Connection_open E fileName this w))
           = snd (sqlite3_close E (Some h) (snd (sqlite3_errmsg E (Some h) e1)))"
  using assms by (simp add: Connection_open_def op_defs split: prod.splits)

theorem open_failure_releases_once_witness:
  "sqlite3_open toy_engine (c_str ''/missing/t.db'') (fst toy_world) = ((14, Some 0), (1, []))
   \<and> (14 :: cint) \<noteq> SQLITE_OK
   \<and> calls_made toy_world (Connection_open toy_engine ''/missing/t.db'' Connection_ctor toy_world)
        = [Call_open ''/missing/t.db'', Call_errmsg (Some 0), Call_close (Some 0)]
   \<and> count_list
        (calls_made toy_world (Connection_open toy_engine ''/missing/t.db'' Connection_ctor toy_world))
        (Call_close (Some 0)) = 1
   \<and> outcome (Connection_open toy_engine ''/missing/t.db'' Connection_ctor toy_world)
        = Inl (Throw \<lparr>errorCode = 14, errorMessage = ''toy error''\<rparr>)
   \<and> fst (world_after (Connection_open toy_engine ''/missing/t.db'' Connection_ctor toy_world))
        = (1, [])"
  using open_failure_releases_once
    [of toy_engine "''/missing/t.db''" toy_world 14 0 "(1, [])" Connection_ctor]
  by (simp add: c_str_def toy_defs)

subsection \<open>Preparing a statement\<close>

text \<open>
  C4, as amended. When the native prepare reports a failure, \<open>prepare\<close> throws an
  \<open>SqlException\<close> with the native result and the diagnostic message read from the
  connection's session handle, and then finalizes the statement handle the failed prepare
  produced, if it produced one; these are all its native calls. When the native prepare
  reports success, the new statement has been compiled first, with the handle the
  statement held before still in place; \<open>prepare\<close> then finalizes that handle, if there
  was one, as its only other native call, and returns normally with the statement
  holding the new handle. In both cases the engine is left as \<^verbatim>\<open>sqlite3_finalize\<close> left
  it.
\<close>

theorem prepare_failure_and_success:
  assumes "sqlite3_prepare_v2 E (ptr connection) statement (of_nat (length statement)) (fst w)
             = ((result, raw), e1)"
    and "sqlite3_errmsg E (ptr connection) e1 = (msg, e2)"
  shows "(result \<noteq> SQLITE_OK \<longrightarrow>
            outcome (prepare E connection statement this w)
              = Inl (Throw \<lparr>errorCode = result,
                              errorMessage = fst (sqlite3_errmsg E (ptr connection) e1)\<rparr>)
          \<and> calls_made w (prepare E connection statement this w)
              = [Call_prepare_v2 (ptr connection) statement (of_nat (length statement)),
                 Call_errmsg (ptr connection)]
                @ (case raw of None \<Rightarrow> [] | Some a \<Rightarrow> [Call_finalize (Some a)])
          \<and> fst (world_after (prepare E connection statement this w))
              = (case raw of None \<Rightarrow> e2 | Some a \<Rightarrow> snd (sqlite3_finalize E (Some a) e2)))
       \<and> (result = SQLITE_OK \<longrightarrow>
            outcome (prepare E connection statement this w) = Inr ()
          \<and> calls_made w (prepare E connection statement this w)
              = [Call_prepare_v2 (ptr connection) statement (of_nat (length statement))]
                @ (case m_stmt this of None \<Rightarrow> [] | Some a \<Rightarrow> [Call_finalize (Some a)])
          \<and> fst (world_after (prepare E connection statement this w))
              = (case m_stmt this of None \<Rightarrow> e1
                 | Some a \<Rightarrow> snd (sqlite3_finalize E (Some a) e1))
          \<and> m_stmt (object_after (prepare E connection statement this w)) = raw)"
  using assms by (simp add: prepare_def op_defs split: prod.splits option.splits)

theorem prepare_failure_and_success_witness:
  "outcome (prepare toy_engine \<lparr>m_db = Some 0\<rparr> ''SELECT'' \<lparr>m_stmt = Some 1\<rparr> ((2, []), []))
     = Inl (Throw \<lparr>errorCode = 1, errorMessage = ''toy error''\<rparr>)
   \<and> calls_made ((2, []), [])
        (prepare toy_engine \<lparr>m_db = Some 0\<rparr> ''SELECT'' \<lparr>m_stmt = Some 1\<rparr> ((2, []), []))
     = [Call_prepare_v2 (Some 0) ''SELECT'' 6, Call_errmsg (Some 0), Call_finalize (Some 2)]
   \<and> fst (world_after
        (prepare toy_engine \<lparr>m_db = Some 0\<rparr> ''SELECT'' \<lparr>m_stmt = Some 1\<rparr> ((2, []), [])))
     = (3, [])
   \<and> outcome (prepare toy_engine \<lparr>m_db = Some 0\<rparr> ''SELECT ?'' \<lparr>m_stmt = Some 1\<rparr> ((2, []), []))
     = Inr ()
   \<and> calls_made ((2, []), [])
        (prepare toy_engine \<lparr>m_db = Some 0\<rparr> ''SELECT ?'' \<lparr>m_stmt = Some 1\<rparr> ((2, []), []))
     = [Call_prepare_v2 (Some 0) ''SELECT ?'' 8, Call_finalize (Some 1)]
   \<and> fst (world_after
        (prepare toy_engine \<lparr>m_db = Some 0\<rparr> ''SELECT ?'' \<lparr>m_stmt = Some 1\<rparr> ((2, []), [])))
     = (3, [])
   \<and> m_stmt (object_after
        (prepare toy_engine \<lparr>m_db = Some 0\<rparr> ''SELECT ?'' \<lparr>m_stmt = Some 1\<rparr> ((2, []), [])))
     = Some 2"
  using
    prepare_failure_and_success [of toy_engine "\<lparr>m_db = Some 0\<rparr>" "''SELECT''"
      "((2, []), [])" 1 "Some 2" "(3, [])" "''toy error''" "(3, [])"
      "\<lparr>m_stmt = Some 1\<rparr>"]
    prepare_failure_and_success [of toy_engine "\<lparr>m_db = Some 0\<rparr>" "''SELECT ?''"
      "((2, []), [])" 0 "Some 2" "(3, [])" "''toy error''" "(3, [])"
      "\<lparr>m_stmt = Some 1\<rparr>"]
  by (simp add: toy_defs ptr_def)

text \<open>
  C4 does not hold in the order it gives, release first and replacement after: on a
  statement that holds handle 1, a successful \<open>prepare\<close> first has the engine compile
  the new statement, handle 2, and only then finalizes handle 1, the last thing it does.
\<close>

theorem prepare_release_order_counterexample:
  "outcome (prepare toy_engine \<lparr>m_db = Some 0\<rparr> ''SELECT ?'' \<lparr>m_stmt = Some 1\<rparr> ((2, []), []))
     = Inr ()
   \<and> calls_made ((2, []), [])
        (prepare toy_engine \<lparr>m_db = Some 0\<rparr> ''SELECT ?'' \<lparr>m_stmt = Some 1\<rparr> ((2, []), []))
     = [Call_prepare_v2 (Some 0) ''SELECT ?'' 8, Call_finalize (Some 1)]
   \<and> hd (calls_made ((2, []), [])
        (prepare toy_engine \<lparr>m_db = Some 0\<rparr> ''SELECT ?'' \<lparr>m_stmt = Some 1\<rparr> ((2, []), [])))
     \<noteq> Call_finalize (Some 1)
   \<and> fst (sqlite3_prepare_v2 toy_engine (Some 0) ''SELECT ?'' 8 (2, [])) = (0, Some 2)
   \<and> snd (sqlite3_prepare_v2 toy_engine (Some 0) ''SELECT ?'' 8 (2, [])) = (3, [])"
  by (simp add: prepare_def ptr_def op_defs toy_defs)

text \<open>
  C9. When a statement holds a compiled handle and the native prepare reports a failure
  (handing back, if anything, a handle other than the one held), \<open>prepare\<close> leaves the
  statement holding the same handle and does not finalize it.
\<close>

theorem failed_prepare_keeps_statement:
  assumes "m_stmt this = Some old"
    and "sqlite3_prepare_v2 E (ptr connection) statement (of_nat (length statement)) (fst w)
           = ((result, raw), e1)"
    and "result \<noteq> SQLITE_OK"
    and "raw \<noteq> Some old"
  shows "m_stmt (object_after (prepare E connection statement this w)) = Some old
       \<and> Call_finalize (Some old) \<notin> set (calls_made w (prepare E connection statement this w))"
  using assms by (auto simp add: prepare_def op_defs split: prod.splits option.splits)

theorem failed_prepare_keeps_statement_witness:
  "m_stmt (object_after
      (prepare toy_engine \<lparr>m_db = Some 0\<rparr> ''SELECT'' \<lparr>m_stmt = Some 1\<rparr> ((2, []), [])))
     = Some 1
   \<and> Call_finalize (Some 1) \<notin> set (calls_made ((2, []), [])
        (prepare toy_engine \<lparr>m_db = Some 0\<rparr> ''SELECT'' \<lparr>m_stmt = Some 1\<rparr> ((2, []), [])))"
  using failed_prepare_keeps_statement [of "\<lparr>m_stmt = Some 1\<rparr>" 1 toy_engine "\<lparr>m_db = Some 0\<rparr>"
      "''SELECT''" "((2, []), [])" 1 "Some 2" "(3, [])"]
  by (simp add: toy_defs ptr_def)

subsection \<open>Reading columns\<close>

text \<open>
  C5. When the engine hands back a null text pointer, \<open>getString\<close> returns the empty
  string; when it hands back a null blob pointer, \<open>getBlob\<close> returns the empty byte
  sequence. Both return normally: no error is raised and nothing is read through the
  pointer.
\<close>

theorem null_column_reads_empty:
  "(fst (sqlite3_column_text E (m_stmt this) column (fst w)) = None \<longrightarrow>
      outcome (getString E column this w) = Inr [])
   \<and> (fst (sqlite3_column_blob E (m_stmt this) column
            (snd (sqlite3_column_bytes E (m_stmt this) column (fst w)))) = None \<longrightarrow>
      outcome (getBlob E column this w) = Inr [])"
  by (simp add: getString_def getBlob_def op_defs split: prod.splits option.splits)

theorem null_column_reads_empty_witness:
  "fst (sqlite3_column_text toy_engine (Some 1) 1 (fst ((2, []), []))) = None
   \<and> fst (sqlite3_column_blob toy_engine (Some 1) 1
        (snd (sqlite3_column_bytes toy_engine (Some 1) 1 (fst ((2, []), []))))) = None
   \<and> outcome (getString toy_engine 1 \<lparr>m_stmt = Some 1\<rparr> ((2, []), [])) = Inr []
   \<and> outcome (getBlob toy_engine 1 \<lparr>m_stmt = Some 1\<rparr> ((2, []), [])) = Inr []"
  using null_column_reads_empty [of toy_engine "\<lparr>m_stmt = Some 1\<rparr>" 1 "((2, []), [])"]
  by (simp add: toy_defs)

text \<open>
  C8. \<open>getBlob\<close> makes two native calls, the byte length first and the byte pointer
  second. When the pointer is not null (and the length the engine reported is not
  negative, as a byte length is), it returns the bytes behind the pointer up to exactly the
  length read before.
\<close>

theorem getBlob_length_before_pointer:
  assumes "sqlite3_column_bytes E (m_stmt this) column (fst w) = (dataSize, e1)"
    and "sqlite3_column_blob E (m_stmt this) column e1 = (data, e2)"
  shows "calls_made w (getBlob E column this w)
           = [Call_column_bytes (m_stmt this) column, Call_column_blob (m_stmt this) column]
       \<and> (\<forall>mem. data = Some mem \<and> 0 \<le> sint dataSize \<longrightarrow>
            outcome (getBlob E column this w) = Inr (map mem [0..<nat (sint dataSize)])
          \<and> int (length (projr (outcome (getBlob E column this w)))) = sint dataSize)"
  using assms by (simp add: getBlob_def op_defs split: prod.splits option.splits)

theorem getBlob_length_before_pointer_witness:
  "sqlite3_column_bytes toy_engine (Some 1) 0 (fst ((2, []), [])) = (5, (2, []))
   \<and> (0 :: int) \<le> sint (5 :: cint)
   \<and> calls_made ((2, []), []) (getBlob toy_engine 0 \<lparr>m_stmt = Some 1\<rparr> ((2, []), []))
     = [Call_column_bytes (Some 1) 0, Call_column_blob (Some 1) 0]
   \<and> outcome (getBlob toy_engine 0 \<lparr>m_stmt = Some 1\<rparr> ((2, []), [])) = Inr ''alice''
   \<and> length (projr (outcome (getBlob toy_engine 0 \<lparr>m_stmt = Some 1\<rparr> ((2, []), [])))) = 5"
  using getBlob_length_before_pointer [of toy_engine "\<lparr>m_stmt = Some 1\<rparr>" 0 "((2, []), [])" 5
      "(2, [])" "Some (\<lambda>i. if i < 5 then ''alice'' ! i else CHR 0x00)" "(2, [])"]
  by (simp add: toy_defs upt_rec)

subsection \<open>Operations on an absent handle\<close>

text \<open>
  Without a handle, \<open>reset\<close> and \<open>lastRowId\<close> go to the engine with a null pointer
  whatever the engine is; no assertion stands in the way.
\<close>

lemma reset_passes_null:
  "m_stmt this = None \<Longrightarrow>
     take 1 (calls_made w (reset E this w)) = [Call_reset None]
     \<and> outcome (reset E this w) \<noteq> Inl Assertion_failed"
  by (simp add: reset_def op_defs split_beta)

lemma lastRowId_passes_null:
  "m_db this = None \<Longrightarrow>
     calls_made w (lastRowId E this w) = [Call_last_insert_rowid None]
     \<and> outcome (lastRowId E this w) = Inr (fst (sqlite3_last_insert_rowid E None (fst w)))"
  by (simp add: lastRowId_def op_defs split_beta)

text \<open>
  C6. Every operation that needs a handle is to fail when the handle is absent. The code
  does so in \<open>execute\<close>, \<open>bind\<close> and \<open>step\<close>, by assertion, and not in
  \<open>reset\<close> and \<open>lastRowId\<close>: on a statement that was never prepared, \<open>reset\<close>
  calls the native reset with a null pointer and, the engine answering success for it,
  returns normally; on a connection that was never opened, \<open>lastRowId\<close> calls the native
  function with a null pointer and returns its answer; \<open>step\<close> and \<open>execute\<close> on the
  same objects stop at their assertion.
\<close>

theorem absent_handle_not_checked:
  "outcome (reset toy_engine Statement_ctor toy_world) = Inr ()
   \<and> calls_made toy_world (reset toy_engine Statement_ctor toy_world) = [Call_reset None]
   \<and> outcome (lastRowId toy_engine Connection_ctor toy_world) = Inr 0
   \<and> calls_made toy_world (lastRowId toy_engine Connection_ctor toy_world)
       = [Call_last_insert_rowid None]
   \<and> outcome (step toy_engine Statement_ctor toy_world) = Inl Assertion_failed
   \<and> outcome (execute toy_engine ''BEGIN'' Connection_ctor toy_world) = Inl Assertion_failed"
  by (simp add: reset_def lastRowId_def step_def execute_def Statement_ctor_def
      Connection_ctor_def op_defs toy_defs)

subsection \<open>The handle field is only changed by open and prepare\<close>

lemma execute_frame:
  "m_db (object_after (execute E s c w)) = m_db c"
  "filter is_release (calls_made w (execute E s c w)) = []"
  by (simp_all add: execute_def op_defs split_beta)

lemma lastRowId_frame:
  "m_db (object_after (lastRowId E c w)) = m_db c"
  "filter is_release (calls_made w (lastRowId E c w)) = []"
  by (simp_all add: lastRowId_def op_defs split_beta)

lemma transaction_frame:
  "m_db (object_after (beginTransaction E c w)) = m_db c"
  "filter is_release (calls_made w (beginTransaction E c w)) = []"
  "m_db (object_after (rollbackTransaction E c w)) = m_db c"
  "filter is_release (calls_made w (rollbackTransaction E c w)) = []"
  "m_db (object_after (commitTransaction E c w)) = m_db c"
  "filter is_release (calls_made w (commitTransaction E c w)) = []"
  by (simp_all add: beginTransaction_def rollbackTransaction_def commitTransaction_def
      execute_frame)

lemma bind_frame:
  "m_stmt (object_after (bind_int E i v st w)) = m_stmt st"
  "filter is_release (calls_made w (bind_int E i v st w)) = []"
  "m_stmt (object_after (bind_int64 E i v64 st w)) = m_stmt st"
  "filter is_release (calls_made w (bind_int64 E i v64 st w)) = []"
  "m_stmt (object_after (bind_text E i s st w)) = m_stmt st"
  "filter is_release (calls_made w (bind_text E i s st w)) = []"
  by (simp_all add: bind_int_def bind_int64_def bind_text_def op_defs Let_def split_beta)

lemma step_frame:
  "m_stmt (object_after (step E st w)) = m_stmt st"
  "filter is_release (calls_made w (step E st w)) = []"
  by (simp_all add: step_def op_defs split_beta)

lemma reset_frame:
  "m_stmt (object_after (reset E st w)) = m_stmt st"
  "filter is_release (calls_made w (reset E st w)) = []"
  by (simp_all add: reset_def op_defs split_beta)

lemma getter_frame:
  "m_stmt (object_after (getInt E col st w)) = m_stmt st"
  "filter is_release (calls_made w (getInt E col st w)) = []"
  "m_stmt (object_after (getInt64 E col st w)) = m_stmt st"
  "filter is_release (calls_made w (getInt64 E col st w)) = []"
  "m_stmt (object_after (getString E col st w)) = m_stmt st"
  "filter is_release (calls_made w (getString E col st w)) = []"
  "m_stmt (object_after (getBlob E col st w)) = m_stmt st"
  "filter is_release (calls_made w (getBlob E col st w)) = []"
  by (simp_all add: getInt_def getInt64_def getString_def getBlob_def op_defs split_beta
      split: option.splits)

text \<open>
  C10. \<open>execute\<close>, the three \<open>bind\<close> overloads, \<open>step\<close>, \<open>reset\<close> and the four
  column getters leave the handle field of their object as it was, whatever their outcome,
  and so do \<open>lastRowId\<close> and the transaction calls; none of them closes a session or
  finalizes a statement. The remaining operations, \<open>open\<close>, \<open>prepare\<close> and the
  destructors, are the only ones that change which handle is owned.
\<close>

theorem handle_field_frame:
  "m_db (object_after (execute E s c w)) = m_db c
   \<and> m_stmt (object_after (bind_int E i v st w)) = m_stmt st
   \<and> m_stmt (object_after (bind_int64 E i v64 st w)) = m_stmt st
   \<and> m_stmt (object_after (bind_text E i s st w)) = m_stmt st
   \<and> m_stmt (object_after (step E st w)) = m_stmt st
   \<and> m_stmt (object_after (reset E st w)) = m_stmt st
   \<and> m_stmt (object_after (getInt E col st w)) = m_stmt st
   \<and> m_stmt (object_after (getInt64 E col st w)) = m_stmt st
   \<and> m_stmt (object_after (getString E col st w)) = m_stmt st
   \<and> m_stmt (object_after (getBlob E col st w)) = m_stmt st
   \<and> m_db (object_after (lastRowId E c w)) = m_db c
   \<and> m_db (object_after (beginTransaction E c w)) = m_db c
   \<and> m_db (object_after (rollbackTransaction E c w)) = m_db c
   \<and> m_db (object_after (commitTransaction E c w)) = m_db c
   \<and> filter is_release
        (calls_made w (execute E s c w) @ calls_made w (bind_int E i v st w)
         @ calls_made w (bind_int64 E i v64 st w) @ calls_made w (bind_text E i s st w)
         @ calls_made w (step E st w) @ calls_made w (reset E st w)
         @ calls_made w (getInt E col st w) @ calls_made w (getInt64 E col st w)
         @ calls_made w (getString E col st w) @ calls_made w (getBlob E col st w)
         @ calls_made w (lastRowId E c w) @ calls_made w (beginTransaction E c w)
         @ calls_made w (rollbackTransaction E c w) @ calls_made w (commitTransaction E c w))
      = []"
  by (simp add: execute_frame lastRowId_frame transaction_frame bind_frame step_frame
      reset_frame getter_frame)

end
